theory Spec2Isabelle
  imports Complex_Main
begin

section \<open>JavaScript values\<close>

text \<open>
  The values that can sit in an axis of a progress object: \<open>undefined\<close> (a key of a
  \<open>Partial<Progress>\<close> that is present without a value) and the numbers. A double is
  idealised as a real number or one of the three special values; rounding is not
  modelled. \<open>typeof v === "number"\<close> holds for every value but \<open>Undefined\<close>.
\<close>

datatype jsval = Undefined | NaN | PosInf | NegInf | Fin real

fun is_number :: "jsval \<Rightarrow> bool" where
  "is_number Undefined = False"
| "is_number _ = True"

text \<open>\<open>v < c\<close> and \<open>v > c\<close> for a finite constant \<open>c\<close>; every comparison with NaN is false.\<close>

fun js_lt :: "jsval \<Rightarrow> real \<Rightarrow> bool" where
  "js_lt (Fin r) c = (r < c)"
| "js_lt NegInf c = True"
| "js_lt _ c = False"

fun js_gt :: "jsval \<Rightarrow> real \<Rightarrow> bool" where
  "js_gt (Fin r) c = (r > c)"
| "js_gt PosInf c = True"
| "js_gt _ c = False"

text \<open>\<open>a * v\<close> for a finite \<open>a\<close>; \<open>undefined\<close> converts to NaN, and \<open>0 * Infinity\<close> is NaN.\<close>

fun js_mul :: "real \<Rightarrow> jsval \<Rightarrow> jsval" where
  "js_mul a (Fin r) = Fin (a * r)"
| "js_mul a PosInf = (if a = 0 then NaN else if 0 < a then PosInf else NegInf)"
| "js_mul a NegInf = (if a = 0 then NaN else if 0 < a then NegInf else PosInf)"
| "js_mul a _ = NaN"

section \<open>Regions and the page\<close>

text \<open>
  A region is an element of the page with the attributes the program reads: the scroll
  offsets (doubles, always finite when read), the scroll and viewport extents (integers
  in the DOM), whether it is an \<open>HTMLElement\<close>, whether it matches the selector
  \<open>body *\<close>, and whether its style sets \<open>overflow: auto\<close> or \<open>scroll\<close>.
  Two more attributes belong to the platform: whether the content overflows leftward, as
  in a right-to-left region, and whether it overflows upward; the offset on such an axis
  runs from 0 down to minus the scrollable distance.
  Elements are known by reference: a reference is a natural number, and the page maps
  each reference to its region.
\<close>

record region =
  scrollTop :: real
  scrollLeft :: real
  scrollWidth :: int
  scrollHeight :: int
  clientWidth :: int
  clientHeight :: int
  isHTMLElement :: bool
  matchesBodyDescendant :: bool
  cssOverflow :: bool
  overflowLeftward :: bool
  overflowUpward :: bool

type_synonym page = "nat \<Rightarrow> region"

text \<open>\<open>document.documentElement\<close>, the root scrolling element.\<close>

definition documentElement :: nat where
  "documentElement = 0"

text \<open>
  What a candidate or an event's \<open>currentTarget\<close> can be: a falsy value (\<open>null\<close>,
  \<open>undefined\<close>), the window, an element, or any other truthy object.
\<close>

datatype ref = Falsy | WindowRef | ElemRef nat | OtherRef

fun truthy :: "ref \<Rightarrow> bool" where
  "truthy Falsy = False"
| "truthy _ = True"

text \<open>
  The platform's \<open>scrollTo\<close> with only \<open>top\<close> (or only \<open>left\<close>) given and
  \<open>behavior: "instant"\<close>, after CSSOM View: a value that is not finite counts as 0; the
  value is clamped to the scrollable range of the axis, which reaches from 0 to the
  scrollable distance where the region overflows rightward (downward) and from minus that
  distance to 0 where it overflows leftward (upward); the browser then stores the offset
  snapped to a whole pixel (at one device pixel per CSS pixel); the other axis keeps its
  offset, and the extents do not change.
\<close>

fun normalize :: "jsval \<Rightarrow> real" where
  "normalize (Fin r) = r"
| "normalize _ = 0"

definition snap :: "real \<Rightarrow> real" where
  "snap v = real_of_int (round v)"

definition scrollTo_top :: "jsval \<Rightarrow> region \<Rightarrow> region" where
  "scrollTo_top v r =
     r\<lparr>scrollTop := snap
        (if overflowUpward r
         then min 0 (max (normalize v) (real_of_int (clientHeight r - scrollHeight r)))
         else max 0 (min (normalize v) (real_of_int (scrollHeight r - clientHeight r))))\<rparr>"

definition scrollTo_left :: "jsval \<Rightarrow> region \<Rightarrow> region" where
  "scrollTo_left v r =
     r\<lparr>scrollLeft := snap
        (if overflowLeftward r
         then min 0 (max (normalize v) (real_of_int (clientWidth r - scrollWidth r)))
         else max 0 (min (normalize v) (real_of_int (scrollWidth r - clientWidth r))))\<rparr>"

section \<open>The instance\<close>

record Options =
  vertical :: bool
  horizontal :: bool

text \<open>\<open>Partial<Options>\<close>: a flag that is not given is \<open>None\<close>.\<close>

record PartialOptions =
  vertical_opt :: "bool option"
  horizontal_opt :: "bool option"

record Progress =
  x :: jsval
  y :: jsval

text \<open>
  The argument of the progress setter: a number, or a partial structure whose keys
  \<open>x\<close> and \<open>y\<close> may each be absent (\<open>None\<close>).
\<close>

datatype progress_value = Number jsval | Partial "jsval option" "jsval option"

datatype error = TypeError

datatype diagnostic = ConsoleError string | ConsoleWarn string ref

text \<open>
  The state of one instance and of the part of the host it touches: the page, the event
  targets on which this instance's \<open>handleScroll\<close> is registered, the console, the
  continuations of \<open>handleScroll\<close> that wait behind \<open>await nextTick()\<close> (each holds
  its scrolled element), and the callbacks handed to \<open>requestAnimationFrame\<close> (each
  holds the element whose handler it adds again).
\<close>

record mirror =
  elements :: "nat list"
  options :: Options
  paused :: bool
  nodes :: page
  listeners :: "ref set"
  console :: "diagnostic list"
  ticks :: "nat list"
  frames :: "nat list"

definition prefix :: string where
  "prefix = ''[scroll-mirror]''"

definition defaults :: Options where
  "defaults = \<lparr>vertical = True, horizontal = True\<rparr>"

text \<open>\<open>[...new Set(xs)]\<close>: the first occurrence of each reference, in order.\<close>

fun uniq :: "'a list \<Rightarrow> 'a list" where
  "uniq [] = []"
| "uniq (a # as) = a # uniq (filter (\<lambda>b. b \<noteq> a) as)"

definition getScrollContainer :: "page \<Rightarrow> ref \<Rightarrow> nat" where
  "getScrollContainer pg el =
     (case el of
        ElemRef n \<Rightarrow>
          if isHTMLElement (pg n) \<and> matchesBodyDescendant (pg n) then n else documentElement
      | _ \<Rightarrow> documentElement)"

text \<open>
  \<open>getScrollContainer\<close> once more, with the value it returns at run time: the argument
  itself in the first branch, the root element in the other. The element list that lines
  37 to 42 of the constructor build holds these values.
\<close>

definition getScrollContainer_value :: "page \<Rightarrow> ref \<Rightarrow> ref" where
  "getScrollContainer_value pg el =
     (case el of
        ElemRef n \<Rightarrow>
          if isHTMLElement (pg n) \<and> matchesBodyDescendant (pg n) then el
          else ElemRef documentElement
      | _ \<Rightarrow> ElemRef documentElement)"

definition constructed_elements :: "page \<Rightarrow> ref list \<Rightarrow> ref list" where
  "constructed_elements pg candidates =
     uniq (map (getScrollContainer_value pg) (filter truthy candidates))"

definition getEventTarget :: "page \<Rightarrow> nat \<Rightarrow> ref" where
  "getEventTarget pg element =
     (if matchesBodyDescendant (pg element) then ElemRef element else WindowRef)"

definition removeHandler :: "nat \<Rightarrow> mirror \<Rightarrow> mirror" where
  "removeHandler element st =
     st\<lparr>listeners := listeners st - {getEventTarget (nodes st) element}\<rparr>"

definition addHandler :: "nat \<Rightarrow> mirror \<Rightarrow> mirror" where
  "addHandler element st =
     (let st1 = removeHandler element st
      in st1\<lparr>listeners := insert (getEventTarget (nodes st1) element) (listeners st1)\<rparr>)"

definition pause :: "mirror \<Rightarrow> mirror" where
  "pause st = st\<lparr>paused := True\<rparr>"

definition resume :: "mirror \<Rightarrow> mirror" where
  "resume st = st\<lparr>paused := False\<rparr>"

definition destroy :: "mirror \<Rightarrow> mirror" where
  "destroy st = fold removeHandler (elements st) st"

text \<open>
  Modelled from the spec: \<open>hasOverflow\<close> of \<open>support/utils.js\<close>, which is not among the
  sources. A region has no scrollable overflow when its scroll extent equals its viewport
  extent on both axes.
\<close>

definition hasOverflow :: "region \<Rightarrow> bool" where
  "hasOverflow r = (\<not> (scrollWidth r = clientWidth r \<and> scrollHeight r = clientHeight r))"

text \<open>
  Modelled from the spec: \<open>hasCSSOverflow\<close> of \<open>support/utils.js\<close>, which is not among
  the sources. It tells whether the element has explicit overflow-auto or overflow-scroll
  styling, an attribute of the region here.
\<close>

definition hasCSSOverflow :: "region \<Rightarrow> bool" where
  "hasCSSOverflow r = cssOverflow r"

text \<open>
  The loop of \<open>validateElements\<close> over the entries of the element list, each entry a
  reference that the loop tests for being falsy. An entry that is not an element is not an
  \<open>HTMLElement\<close> and draws no warning.
\<close>

definition overflow_warnings :: "page \<Rightarrow> nat \<Rightarrow> diagnostic list" where
  "overflow_warnings pg n =
     (if isHTMLElement (pg n) \<and> \<not> hasOverflow (pg n)
      then [ConsoleWarn (prefix @ '' element doesn't have overflow:'') (ElemRef n)] else [])
     @ (if isHTMLElement (pg n) \<and> matchesBodyDescendant (pg n) \<and> \<not> hasCSSOverflow (pg n)
        then [ConsoleWarn (prefix @ '' no \"overflow: auto;\" or \"overflow: scroll;\" set on element:'')
                (ElemRef n)]
        else [])"

fun validate_loop :: "page \<Rightarrow> ref list \<Rightarrow> bool \<times> diagnostic list" where
  "validate_loop pg [] = (True, [])"
| "validate_loop pg (Falsy # es) =
     (False, [ConsoleWarn (prefix @ '' element is not defined:'') Falsy])"
| "validate_loop pg (ElemRef n # es) =
     (let (ok, msgs) = validate_loop pg es in (ok, overflow_warnings pg n @ msgs))"
| "validate_loop pg (e # es) = validate_loop pg es"

definition validateElements :: "mirror \<Rightarrow> bool \<times> mirror" where
  "validateElements st =
     (let elems = map ElemRef (elements st) in
      if length elems < 2
      then (False, st\<lparr>console := console st
               @ [ConsoleError (prefix @ '' Please provide at least two elements'')]\<rparr>)
      else (let (ok, msgs) = validate_loop (nodes st) elems
            in (ok, st\<lparr>console := console st @ msgs\<rparr>)))"

definition getScrollProgress :: "region \<Rightarrow> Progress" where
  "getScrollProgress el =
     (let availableWidth = real_of_int (scrollWidth el - clientWidth el);
          availableHeight = real_of_int (scrollHeight el - clientHeight el)
      in \<lparr>x = (if scrollLeft el \<noteq> 0
                then Fin (scrollLeft el / max 0.00001 availableWidth) else Fin 0),
          y = (if scrollTop el \<noteq> 0
                then Fin (scrollTop el / max 0.00001 availableHeight) else Fin 0)\<rparr>)"

text \<open>What \<open>setScrollPosition\<close> does to its target region.\<close>

definition setScrollPosition_region :: "Options \<Rightarrow> Progress \<Rightarrow> region \<Rightarrow> region" where
  "setScrollPosition_region opts progress target =
     (let availableScroll_x = scrollWidth target - clientWidth target;
          availableScroll_y = scrollHeight target - clientHeight target;
          t1 = (if vertical opts \<and> availableScroll_y \<noteq> 0
                then scrollTo_top (js_mul (real_of_int availableScroll_y) (y progress)) target
                else target)
      in if horizontal opts \<and> availableScroll_x \<noteq> 0
         then scrollTo_left (js_mul (real_of_int availableScroll_x) (x progress)) t1
         else t1)"

definition setScrollPosition :: "Progress \<Rightarrow> nat \<Rightarrow> mirror \<Rightarrow> mirror" where
  "setScrollPosition progress target st =
     st\<lparr>nodes := (nodes st)(target := setScrollPosition_region (options st) progress (nodes st target))\<rparr>"

text \<open>One round of the loop of \<open>mirrorScrollPositions\<close>.\<close>

definition mirror_step :: "Progress \<Rightarrow> nat option \<Rightarrow> nat \<Rightarrow> mirror \<Rightarrow> mirror" where
  "mirror_step progress ignore element st =
     (if ignore = Some element then st
      else (let st1 = removeHandler element st;
                st2 = setScrollPosition progress element st1
            in st2\<lparr>frames := frames st2 @ [element]\<rparr>))"

definition mirrorScrollPositions :: "Progress \<Rightarrow> nat option \<Rightarrow> mirror \<Rightarrow> mirror" where
  "mirrorScrollPositions progress ignore st = fold (mirror_step progress ignore) (elements st) st"

text \<open>The host runs the pending animation-frame callbacks, each an \<open>addHandler\<close>.\<close>

definition animation_frame :: "mirror \<Rightarrow> mirror" where
  "animation_frame st = fold addHandler (frames st) (st\<lparr>frames := []\<rparr>)"

text \<open>Lines 37 to 44 of the constructor: the fields before validation.\<close>

definition init :: "ref list \<Rightarrow> PartialOptions \<Rightarrow> page \<Rightarrow> mirror" where
  "init candidates opts pg =
     \<lparr>elements = uniq (map (getScrollContainer pg) (filter truthy candidates)),
      options = \<lparr>vertical = (case vertical_opt opts of None \<Rightarrow> vertical defaults | Some b \<Rightarrow> b),
                 horizontal = (case horizontal_opt opts of None \<Rightarrow> horizontal defaults | Some b \<Rightarrow> b)\<rparr>,
      paused = False,
      nodes = pg,
      listeners = {},
      console = [],
      ticks = [],
      frames = []\<rparr>"

definition Constructor :: "ref list \<Rightarrow> PartialOptions \<Rightarrow> page \<Rightarrow> mirror" where
  "Constructor candidates opts pg =
     (let (ok, st) = validateElements (init candidates opts pg) in
      if \<not> ok then st
      else (let st1 = fold addHandler (elements st) st in
            if documentElement \<in> set (elements st1)
            then mirrorScrollPositions (getScrollProgress (nodes st1 documentElement))
                   (Some documentElement) st1
            else st1))"

text \<open>
  \<open>handleScroll\<close> up to its \<open>await\<close>. Modelled from the spec: \<open>nextTick\<close> of
  \<open>support/utils.js\<close>, which is not among the sources; the handler yields once, so the
  rest of it is queued with its scrolled element and runs at the next tick.
\<close>

definition handleScroll :: "ref \<Rightarrow> mirror \<Rightarrow> mirror" where
  "handleScroll currentTarget st =
     (if paused st then st
      else if \<not> truthy currentTarget then st
      else st\<lparr>ticks := ticks st @ [getScrollContainer (nodes st) currentTarget]\<rparr>)"

text \<open>\<open>handleScroll\<close> after its \<open>await\<close>.\<close>

definition handleScroll_continue :: "nat \<Rightarrow> mirror \<Rightarrow> mirror" where
  "handleScroll_continue scrolledElement st =
     mirrorScrollPositions (getScrollProgress (nodes st scrolledElement)) (Some scrolledElement) st"

text \<open>The host reaches the next tick and runs the waiting continuations in order.\<close>

definition tick :: "mirror \<Rightarrow> mirror" where
  "tick st = fold handleScroll_continue (ticks st) (st\<lparr>ticks := []\<rparr>)"

text \<open>
  The host delivers a native scroll event at an event target: the handler runs when it is
  registered there, with that target as \<open>currentTarget\<close>.
\<close>

definition scroll_event :: "ref \<Rightarrow> mirror \<Rightarrow> mirror" where
  "scroll_event target st = (if target \<in> listeners st then handleScroll target st else st)"

text \<open>
  The user scrolls a region to the given offsets: the host moves the region and then
  delivers the scroll event at the region, or at the window for the root.
\<close>

definition user_scroll :: "nat \<Rightarrow> real \<Rightarrow> real \<Rightarrow> mirror \<Rightarrow> mirror" where
  "user_scroll n new_top new_left st =
     scroll_event (if n = documentElement then WindowRef else ElemRef n)
       (st\<lparr>nodes := (nodes st)
          (n := scrollTo_left (Fin new_left) (scrollTo_top (Fin new_top) (nodes st n)))\<rparr>)"

text \<open>
  The progress getter. \<open>this.elements[0]\<close> is \<open>undefined\<close> when the list is empty, and
  destructuring it in \<open>getScrollProgress\<close> throws a TypeError.
\<close>

definition get_progress :: "mirror \<Rightarrow> error + Progress" where
  "get_progress st =
     (case elements st of
        [] \<Rightarrow> Inl TypeError
      | el # _ \<Rightarrow> Inr (getScrollProgress (nodes st el)))"

text \<open>The loop of \<open>validateProgress\<close> over the entries of the progress object.\<close>

fun validate_entries :: "(string \<times> jsval) list \<Rightarrow> bool \<times> diagnostic list \<Rightarrow> bool \<times> diagnostic list" where
  "validate_entries [] acc = acc"
| "validate_entries ((key, v) # es) (valid, msgs) =
     (if \<not> is_number v \<or> js_lt v 0 \<or> js_gt v 1
      then validate_entries es
             (False, msgs @ [ConsoleError (''progress.'' @ key @ '' must be a number between 0-1'')])
      else validate_entries es (valid, msgs))"

definition validateProgress :: "Progress \<Rightarrow> bool \<times> diagnostic list" where
  "validateProgress progress = validate_entries [(''x'', x progress), (''y'', y progress)] (True, [])"

text \<open>
  \<open>{ ...this.progress, ...value }\<close>: a key of the value that is present wins, also when
  it holds \<open>undefined\<close>. A value that is neither a number nor an object spreads to nothing.
\<close>

definition merge_progress :: "Progress \<Rightarrow> progress_value \<Rightarrow> Progress" where
  "merge_progress cur v =
     (case v of
        Number n \<Rightarrow> (if is_number n then \<lparr>x = n, y = n\<rparr> else cur)
      | Partial vx vy \<Rightarrow>
          \<lparr>x = (case vx of None \<Rightarrow> x cur | Some a \<Rightarrow> a),
           y = (case vy of None \<Rightarrow> y cur | Some b \<Rightarrow> b)\<rparr>)"

definition set_progress :: "progress_value \<Rightarrow> mirror \<Rightarrow> error + mirror" where
  "set_progress v st =
     (case get_progress st of
        Inl e \<Rightarrow> Inl e
      | Inr cur \<Rightarrow>
          (let progress = merge_progress cur v;
               (valid, msgs) = validateProgress progress;
               st1 = st\<lparr>console := console st @ msgs\<rparr>
           in if \<not> valid then Inr st1
              else Inr (mirrorScrollPositions progress None st1)))"

section \<open>A page for the examples\<close>

text \<open>
  The root element and two regions inside the body: A (2000 high in a viewport of 1000,
  scrolled to 500; 200 wide in a viewport of 100, scrolled to 20) and B (1000 high in a
  viewport of 500, scrolled to 250; 200 wide in a viewport of 100, scrolled to 80).
  Region R has B's extents and is right-to-left, scrolled to 20 from its right end.
  A third region, C, has no scrollable distance on either axis (its extents, rounded to
  integers as the DOM reports them, are equal) and yet a fractional offset of 0.5.
\<close>

definition region_root :: region where
  "region_root = \<lparr>scrollTop = 0, scrollLeft = 0, scrollWidth = 1200, scrollHeight = 3000,
     clientWidth = 1200, clientHeight = 800, isHTMLElement = True,
     matchesBodyDescendant = False, cssOverflow = False,
     overflowLeftward = False, overflowUpward = False\<rparr>"

definition region_A :: region where
  "region_A = \<lparr>scrollTop = 500, scrollLeft = 20, scrollWidth = 200, scrollHeight = 2000,
     clientWidth = 100, clientHeight = 1000, isHTMLElement = True,
     matchesBodyDescendant = True, cssOverflow = True,
     overflowLeftward = False, overflowUpward = False\<rparr>"

definition region_B :: region where
  "region_B = \<lparr>scrollTop = 250, scrollLeft = 80, scrollWidth = 200, scrollHeight = 1000,
     clientWidth = 100, clientHeight = 500, isHTMLElement = True,
     matchesBodyDescendant = True, cssOverflow = True,
     overflowLeftward = False, overflowUpward = False\<rparr>"

definition region_C :: region where
  "region_C = \<lparr>scrollTop = 0.5, scrollLeft = 0.5, scrollWidth = 100, scrollHeight = 100,
     clientWidth = 100, clientHeight = 100, isHTMLElement = True,
     matchesBodyDescendant = True, cssOverflow = True,
     overflowLeftward = False, overflowUpward = False\<rparr>"

definition region_R :: region where
  "region_R = \<lparr>scrollTop = 250, scrollLeft = - 20, scrollWidth = 200, scrollHeight = 1000,
     clientWidth = 100, clientHeight = 500, isHTMLElement = True,
     matchesBodyDescendant = True, cssOverflow = True,
     overflowLeftward = True, overflowUpward = False\<rparr>"

definition demo_page :: page where
  "demo_page n =
     (if n = 1 then region_A else if n = 2 then region_B else if n = 3 then region_R
      else region_root)"

definition all_options :: PartialOptions where
  "all_options = \<lparr>vertical_opt = None, horizontal_opt = None\<rparr>"

text \<open>\<open>new ScrollMirror([A, B])\<close> on that page.\<close>

definition demo :: mirror where
  "demo = Constructor [ElemRef 1, ElemRef 2] all_options demo_page"

text \<open>\<open>new ScrollMirror([A, R])\<close> on that page.\<close>

definition demo_rtl :: mirror where
  "demo_rtl = Constructor [ElemRef 1, ElemRef 3] all_options demo_page"

text \<open>The scroll offsets \<open>(scrollTop, scrollLeft)\<close> of a region in the outcome of a call.\<close>

definition offsets :: "nat \<Rightarrow> mirror \<Rightarrow> real \<times> real" where
  "offsets n st = (scrollTop (nodes st n), scrollLeft (nodes st n))"

definition offsets_of :: "nat \<Rightarrow> error + mirror \<Rightarrow> error + real \<times> real" where
  "offsets_of n res = map_sum id (offsets n) res"

definition console_of :: "error + mirror \<Rightarrow> error + diagnostic list" where
  "console_of res = map_sum id console res"


text \<open>
  A run on the example page: the user scrolls A to 800, and the handler mirrors to B at the
  next tick; the instance is destroyed before the next animation frame; the frame comes;
  the user then scrolls B to 100 and 50, and a tick passes.
\<close>

definition run_mirrored :: mirror where
  "run_mirrored = tick (user_scroll 1 800 20 demo)"

definition run_destroyed :: mirror where
  "run_destroyed = destroy run_mirrored"

definition run_frame :: mirror where
  "run_frame = animation_frame run_destroyed"

definition run_late :: mirror where
  "run_late = tick (user_scroll 2 100 50 run_frame)"

section \<open>What the operations leave alone\<close>

lemma removeHandler_fields [simp]:
  "elements (removeHandler e st) = elements st"
  "options (removeHandler e st) = options st"
  "paused (removeHandler e st) = paused st"
  "nodes (removeHandler e st) = nodes st"
  "console (removeHandler e st) = console st"
  "ticks (removeHandler e st) = ticks st"
  "frames (removeHandler e st) = frames st"
  by (simp_all add: removeHandler_def)

lemma addHandler_fields [simp]:
  "elements (addHandler e st) = elements st"
  "options (addHandler e st) = options st"
  "paused (addHandler e st) = paused st"
  "nodes (addHandler e st) = nodes st"
  "console (addHandler e st) = console st"
  "ticks (addHandler e st) = ticks st"
  "frames (addHandler e st) = frames st"
  by (simp_all add: addHandler_def Let_def)

lemma setScrollPosition_fields [simp]:
  "elements (setScrollPosition p e st) = elements st"
  "options (setScrollPosition p e st) = options st"
  "paused (setScrollPosition p e st) = paused st"
  "listeners (setScrollPosition p e st) = listeners st"
  "console (setScrollPosition p e st) = console st"
  "ticks (setScrollPosition p e st) = ticks st"
  "frames (setScrollPosition p e st) = frames st"
  by (simp_all add: setScrollPosition_def)

lemma mirror_step_fields [simp]:
  "elements (mirror_step p ig e st) = elements st"
  "options (mirror_step p ig e st) = options st"
  "paused (mirror_step p ig e st) = paused st"
  "console (mirror_step p ig e st) = console st"
  "ticks (mirror_step p ig e st) = ticks st"
  by (simp_all add: mirror_step_def Let_def)

lemma mirror_step_nodes:
  "nodes (mirror_step p ig e st) =
     (if ig = Some e then nodes st
      else (nodes st)(e := setScrollPosition_region (options st) p (nodes st e)))"
  by (simp add: mirror_step_def Let_def setScrollPosition_def)

lemma scrollTo_extents [simp]:
  "scrollWidth (scrollTo_top v r) = scrollWidth r"
  "scrollHeight (scrollTo_top v r) = scrollHeight r"
  "clientWidth (scrollTo_top v r) = clientWidth r"
  "clientHeight (scrollTo_top v r) = clientHeight r"
  "scrollLeft (scrollTo_top v r) = scrollLeft r"
  "scrollWidth (scrollTo_left v r) = scrollWidth r"
  "scrollHeight (scrollTo_left v r) = scrollHeight r"
  "clientWidth (scrollTo_left v r) = clientWidth r"
  "clientHeight (scrollTo_left v r) = clientHeight r"
  "scrollTop (scrollTo_left v r) = scrollTop r"
  by (simp_all add: scrollTo_top_def scrollTo_left_def)

lemma scrollTo_twice [simp]:
  "scrollTo_top v (scrollTo_top w r) = scrollTo_top v r"
  "scrollTo_left v (scrollTo_left w r) = scrollTo_left v r"
  "scrollTo_top v (scrollTo_left u (scrollTo_top w r)) = scrollTo_left u (scrollTo_top v r)"
  by (simp_all add: scrollTo_top_def scrollTo_left_def)

lemma setScrollPosition_region_extents [simp]:
  "scrollWidth (setScrollPosition_region opts p r) = scrollWidth r"
  "scrollHeight (setScrollPosition_region opts p r) = scrollHeight r"
  "clientWidth (setScrollPosition_region opts p r) = clientWidth r"
  "clientHeight (setScrollPosition_region opts p r) = clientHeight r"
  by (simp_all add: setScrollPosition_region_def Let_def)

lemma setScrollPosition_region_idem:
  "setScrollPosition_region opts p (setScrollPosition_region opts p r) =
   setScrollPosition_region opts p r"
proof -
  have "setScrollPosition_region opts p (setScrollPosition_region opts p r) =
        setScrollPosition_region opts p r"
    if "vertical opts \<and> scrollHeight r \<noteq> clientHeight r"
       "horizontal opts \<and> scrollWidth r \<noteq> clientWidth r"
    using that by (simp add: setScrollPosition_region_def Let_def)
  moreover have "setScrollPosition_region opts p (setScrollPosition_region opts p r) =
        setScrollPosition_region opts p r"
    if "\<not> (vertical opts \<and> scrollHeight r \<noteq> clientHeight r)"
    using that by (auto simp add: setScrollPosition_region_def Let_def)
  moreover have "setScrollPosition_region opts p (setScrollPosition_region opts p r) =
        setScrollPosition_region opts p r"
    if "\<not> (horizontal opts \<and> scrollWidth r \<noteq> clientWidth r)"
    using that by (auto simp add: setScrollPosition_region_def Let_def)
  ultimately show ?thesis by blast
qed

lemma fold_mirror_step_fields [simp]:
  "elements (fold (mirror_step p ig) es st) = elements st"
  "options (fold (mirror_step p ig) es st) = options st"
  "paused (fold (mirror_step p ig) es st) = paused st"
  "console (fold (mirror_step p ig) es st) = console st"
  "ticks (fold (mirror_step p ig) es st) = ticks st"
  by (induction es arbitrary: st) simp_all

lemma fold_mirror_step_nodes:
  "nodes (fold (mirror_step p ig) es st) r =
     (if r \<in> set es \<and> ig \<noteq> Some r
      then setScrollPosition_region (options st) p (nodes st r) else nodes st r)"
proof (induction es arbitrary: st)
  case Nil
  show ?case by simp
next
  case (Cons e es)
  show ?case
    by (simp only: fold_simps Cons.IH mirror_step_nodes mirror_step_fields set_simps)
       (auto simp add: setScrollPosition_region_idem)
qed

lemma fold_addHandler_fields [simp]:
  "elements (fold addHandler es st) = elements st"
  "options (fold addHandler es st) = options st"
  "paused (fold addHandler es st) = paused st"
  "nodes (fold addHandler es st) = nodes st"
  "console (fold addHandler es st) = console st"
  "ticks (fold addHandler es st) = ticks st"
  "frames (fold addHandler es st) = frames st"
  by (induction es arbitrary: st) simp_all

lemma fold_removeHandler_fields [simp]:
  "elements (fold removeHandler es st) = elements st"
  "options (fold removeHandler es st) = options st"
  "paused (fold removeHandler es st) = paused st"
  "nodes (fold removeHandler es st) = nodes st"
  "console (fold removeHandler es st) = console st"
  "ticks (fold removeHandler es st) = ticks st"
  "frames (fold removeHandler es st) = frames st"
  by (induction es arbitrary: st) simp_all

lemma mirrorScrollPositions_fields [simp]:
  "elements (mirrorScrollPositions p ig st) = elements st"
  "options (mirrorScrollPositions p ig st) = options st"
  "paused (mirrorScrollPositions p ig st) = paused st"
  "console (mirrorScrollPositions p ig st) = console st"
  "ticks (mirrorScrollPositions p ig st) = ticks st"
  by (simp_all add: mirrorScrollPositions_def)

text \<open>
  A mirror pass moves exactly the registered regions other than the ignored one, each to
  what \<open>setScrollPosition\<close> writes from the region as it was before the pass.
\<close>

lemma mirrorScrollPositions_nodes:
  "nodes (mirrorScrollPositions p ig st) r =
     (if r \<in> set (elements st) \<and> ig \<noteq> Some r
      then setScrollPosition_region (options st) p (nodes st r) else nodes st r)"
  by (simp add: mirrorScrollPositions_def fold_mirror_step_nodes)

lemma init_fields [simp]:
  "elements (init cands opts pg) = uniq (map (getScrollContainer pg) (filter truthy cands))"
  "paused (init cands opts pg) = False"
  "nodes (init cands opts pg) = pg"
  "listeners (init cands opts pg) = {}"
  "console (init cands opts pg) = []"
  "ticks (init cands opts pg) = []"
  "frames (init cands opts pg) = []"
  by (simp_all add: init_def)

lemma validateElements_short:
  "length (elements st) < 2 \<Longrightarrow>
   validateElements st = (False, st\<lparr>console := console st
      @ [ConsoleError (prefix @ '' Please provide at least two elements'')]\<rparr>)"
  by (simp add: validateElements_def)

section \<open>The example page, evaluated\<close>

lemma demo_page_simps [simp]:
  "demo_page (Suc 0) = region_A" "demo_page 2 = region_B" "demo_page 0 = region_root"
  by (simp_all add: demo_page_def)

lemma demo_init: "init [ElemRef 1, ElemRef 2] all_options demo_page =
   \<lparr>elements = [1, 2], options = \<lparr>vertical = True, horizontal = True\<rparr>, paused = False,
    nodes = demo_page, listeners = {}, console = [], ticks = [], frames = []\<rparr>"
  by (simp add: init_def all_options_def defaults_def getScrollContainer_def
      region_A_def region_B_def)

lemma demo_eq: "demo =
   \<lparr>elements = [1, 2], options = \<lparr>vertical = True, horizontal = True\<rparr>, paused = False,
    nodes = demo_page, listeners = {ElemRef 1, ElemRef 2}, console = [], ticks = [], frames = []\<rparr>"
  unfolding demo_def Constructor_def demo_init
  by (simp add: validateElements_def overflow_warnings_def hasOverflow_def hasCSSOverflow_def
      addHandler_def removeHandler_def getEventTarget_def documentElement_def
      region_A_def region_B_def Let_def insert_commute)

section \<open>Progress of a region that cannot scroll\<close>

text \<open>
  C2, at the failing input. Region C has no scrollable distance on the horizontal axis and
  a horizontal offset of 0.5. Its computed progress on that axis is not 0: it is the offset
  divided by the epsilon, a value above 1 that the program's own \<open>validateProgress\<close>
  rejects.
\<close>

theorem zero_distance_progress_nonzero:
  "scrollWidth region_C = clientWidth region_C
   \<and> x (getScrollProgress region_C) \<noteq> Fin 0
   \<and> js_gt (x (getScrollProgress region_C)) 1
   \<and> \<not> fst (validateProgress (getScrollProgress region_C))"
  by (simp add: region_C_def getScrollProgress_def validateProgress_def)

section \<open>Construction with fewer than two regions\<close>

text \<open>
  C6. When fewer than two distinct scroll containers remain after the falsy candidates are
  dropped, the containers resolved and the duplicates removed, the constructor leaves an
  inert instance: it emits the diagnostic, registers the scroll handler on no event target,
  leaves the page as it was and schedules nothing.
\<close>

theorem constructor_inert:
  assumes "length (uniq (map (getScrollContainer pg) (filter truthy cands))) < 2"
  shows "listeners (Constructor cands opts pg) = {}
     \<and> console (Constructor cands opts pg)
         = [ConsoleError ''[scroll-mirror] Please provide at least two elements'']
     \<and> nodes (Constructor cands opts pg) = pg
     \<and> frames (Constructor cands opts pg) = []"
proof -
  have "length (elements (init cands opts pg)) < 2"
    using assms by simp
  then have "Constructor cands opts pg = (init cands opts pg)\<lparr>console :=
      [ConsoleError (prefix @ '' Please provide at least two elements'')]\<rparr>"
    by (simp add: Constructor_def validateElements_short)
  then show ?thesis
    by (simp add: prefix_def)
qed

theorem constructor_inert_witness:
  "length (uniq (map (getScrollContainer demo_page) (filter truthy [ElemRef 1, Falsy, ElemRef 1]))) < 2
   \<and> listeners (Constructor [ElemRef 1, Falsy, ElemRef 1] all_options demo_page) = {}
   \<and> console (Constructor [ElemRef 1, Falsy, ElemRef 1] all_options demo_page)
         = [ConsoleError ''[scroll-mirror] Please provide at least two elements'']"
proof -
  have h: "length (uniq (map (getScrollContainer demo_page)
             (filter truthy [ElemRef 1, Falsy, ElemRef 1]))) < 2"
    by (simp add: getScrollContainer_def)
  show ?thesis
    using h constructor_inert [OF h, of all_options] by simp
qed

section \<open>The element list of a constructed instance\<close>

lemma validate_loop_elements:
  "validate_loop pg (map ElemRef ns) = (True, concat (map (overflow_warnings pg) ns))"
  by (induction ns) simp_all

lemma overflow_warnings_defined:
  "ConsoleWarn s Falsy \<notin> set (overflow_warnings pg n)"
  by (simp add: overflow_warnings_def)

lemma validateElements_console:
  "ConsoleWarn s Falsy \<notin> set (console st) \<Longrightarrow>
   ConsoleWarn s Falsy \<notin> set (console (snd (validateElements st)))"
  by (simp add: validateElements_def Let_def validate_loop_elements overflow_warnings_defined)

lemma validateElements_fst:
  "fst (validateElements st) = (2 \<le> length (elements st))"
  by (simp add: validateElements_def Let_def validate_loop_elements not_less)

lemma validateElements_fields [simp]:
  "elements (snd (validateElements st)) = elements st"
  "options (snd (validateElements st)) = options st"
  "paused (snd (validateElements st)) = paused st"
  "nodes (snd (validateElements st)) = nodes st"
  "listeners (snd (validateElements st)) = listeners st"
  "ticks (snd (validateElements st)) = ticks st"
  "frames (snd (validateElements st)) = frames st"
  by (simp_all add: validateElements_def Let_def split_beta)

lemma Constructor_unfold:
  "Constructor cands opts pg =
     (let st = snd (validateElements (init cands opts pg)) in
      if \<not> fst (validateElements (init cands opts pg)) then st
      else (let st1 = fold addHandler (elements st) st in
            if documentElement \<in> set (elements st1)
            then mirrorScrollPositions (getScrollProgress (nodes st1 documentElement))
                   (Some documentElement) st1
            else st1))"
  by (simp add: Constructor_def split_beta Let_def)

lemma Constructor_elements:
  "elements (Constructor cands opts pg) = uniq (map (getScrollContainer pg) (filter truthy cands))"
  by (simp add: Constructor_unfold Let_def)

lemma Constructor_console:
  "console (Constructor cands opts pg) = console (snd (validateElements (init cands opts pg)))"
  by (simp add: Constructor_unfold Let_def)

lemma getScrollContainer_value_eq:
  "getScrollContainer_value pg el = ElemRef (getScrollContainer pg el)"
  by (cases el) (simp_all add: getScrollContainer_value_def getScrollContainer_def)

lemma uniq_map_inj:
  "inj f \<Longrightarrow> uniq (map f xs) = map f (uniq xs)"
proof (induction xs rule: uniq.induct)
  case 1
  show ?case by simp
next
  case (2 a as)
  have "filter (\<lambda>b. b \<noteq> f a) (map f as) = map f (filter (\<lambda>b. b \<noteq> a) as)"
    using 2(2) by (simp add: filter_map comp_def inj_eq)
  with 2 show ?case by simp
qed

lemma constructed_elements_eq:
  "constructed_elements pg cands = map ElemRef (elements (init cands opts pg))"
proof -
  have "map (getScrollContainer_value pg) zs = map ElemRef (map (getScrollContainer pg) zs)" for zs
    by (induction zs) (simp_all add: getScrollContainer_value_eq)
  then have "constructed_elements pg cands
      = uniq (map ElemRef (map (getScrollContainer pg) (filter truthy cands)))"
    unfolding constructed_elements_def by (simp only:)
  also have "\<dots> = map ElemRef (uniq (map (getScrollContainer pg) (filter truthy cands)))"
    by (rule uniq_map_inj) (simp add: inj_def)
  finally show ?thesis by (simp only: init_fields)
qed

lemma set_uniq [simp]: "set (uniq xs) = set xs"
  by (induction xs rule: uniq.induct) auto

text \<open>
  C10. For every instance built by the constructor: the filter leaves no falsy candidate;
  \<open>getScrollContainer\<close> returns a truthy value whatever it is given; so the element list
  built at run time holds no falsy entry, and it is the list of the instance; the loop of
  \<open>validateElements\<close> over it runs to its end and returns true; the outcome of the
  validation is exactly whether at least two elements remain; and the warning of the
  branch for an undefined element is never on the console.
\<close>

theorem constructor_elements_defined:
  "Falsy \<notin> set (filter truthy cands)
   \<and> truthy (getScrollContainer_value pg el)
   \<and> Falsy \<notin> set (constructed_elements pg cands)
   \<and> map ElemRef (elements (Constructor cands opts pg)) = constructed_elements pg cands
   \<and> fst (validate_loop pg (constructed_elements pg cands))
   \<and> fst (validateElements (init cands opts pg)) = (2 \<le> length (constructed_elements pg cands))
   \<and> ConsoleWarn (prefix @ '' element is not defined:'') Falsy
        \<notin> set (console (Constructor cands opts pg))"
proof -
  have a: "Falsy \<notin> set (filter truthy cands)"
    by auto
  have b: "truthy (getScrollContainer_value pg el)"
    by (cases el) (simp_all add: getScrollContainer_value_def)
  have c: "Falsy \<notin> set (constructed_elements pg cands)"
    by (auto simp add: constructed_elements_def getScrollContainer_value_eq)
  have d: "map ElemRef (elements (Constructor cands opts pg)) = constructed_elements pg cands"
    by (simp add: Constructor_elements constructed_elements_eq [of pg cands opts])
  have e: "fst (validate_loop pg (constructed_elements pg cands))"
    by (simp add: constructed_elements_eq [of pg cands opts] validate_loop_elements)
  have f: "fst (validateElements (init cands opts pg)) = (2 \<le> length (constructed_elements pg cands))"
    by (simp add: validateElements_fst constructed_elements_eq [of pg cands opts])
  have g: "ConsoleWarn (prefix @ '' element is not defined:'') Falsy
        \<notin> set (console (Constructor cands opts pg))"
    unfolding Constructor_console by (rule validateElements_console) simp
  from a b c d e f g show ?thesis by blast
qed

theorem constructor_elements_defined_witness:
  "constructed_elements demo_page [Falsy, ElemRef 1, WindowRef, ElemRef 1] = [ElemRef 1, ElemRef 0]
   \<and> map ElemRef (elements (Constructor [Falsy, ElemRef 1, WindowRef, ElemRef 1] all_options demo_page))
       = [ElemRef 1, ElemRef 0]
   \<and> fst (validateElements (init [Falsy, ElemRef 1, WindowRef, ElemRef 1] all_options demo_page))
   \<and> fst (validate_loop demo_page [ElemRef 1, Falsy]) = False"
proof -
  have c: "constructed_elements demo_page [Falsy, ElemRef 1, WindowRef, ElemRef 1]
      = [ElemRef 1, ElemRef 0]"
    by (simp add: constructed_elements_def getScrollContainer_value_def region_A_def
        documentElement_def)
  from constructor_elements_defined
    [of "[Falsy, ElemRef 1, WindowRef, ElemRef 1]" demo_page Falsy all_options]
  show ?thesis
    unfolding c by simp
qed

section \<open>Mirroring twice\<close>

text \<open>
  C7. For every progress value and every region, writing the progress a second time
  changes nothing: \<open>setScrollPosition\<close> applied twice to a target gives the state it gives
  when applied once, a second mirror pass leaves every region where the first one put it,
  and on an axis that is written the offset written does not depend on the offset the
  region had.
\<close>

theorem mirroring_idempotent:
  "setScrollPosition p t (setScrollPosition p t st) = setScrollPosition p t st
   \<and> nodes (mirrorScrollPositions p ig (mirrorScrollPositions p ig st))
       = nodes (mirrorScrollPositions p ig st)
   \<and> (vertical opts \<and> scrollHeight r \<noteq> clientHeight r \<longrightarrow>
        scrollTop (setScrollPosition_region opts p (r\<lparr>scrollTop := a\<rparr>))
          = scrollTop (setScrollPosition_region opts p r))
   \<and> (horizontal opts \<and> scrollWidth r \<noteq> clientWidth r \<longrightarrow>
        scrollLeft (setScrollPosition_region opts p (r\<lparr>scrollLeft := b\<rparr>))
          = scrollLeft (setScrollPosition_region opts p r))"
proof -
  have one: "setScrollPosition p t (setScrollPosition p t st) = setScrollPosition p t st"
    by (simp add: setScrollPosition_def setScrollPosition_region_idem)
  have two: "nodes (mirrorScrollPositions p ig (mirrorScrollPositions p ig st))
       = nodes (mirrorScrollPositions p ig st)"
    by (rule ext) (simp add: mirrorScrollPositions_nodes setScrollPosition_region_idem)
  have three: "scrollTop (setScrollPosition_region opts p (r\<lparr>scrollTop := a\<rparr>))
          = scrollTop (setScrollPosition_region opts p r)"
    if "vertical opts \<and> scrollHeight r \<noteq> clientHeight r"
    using that by (simp add: setScrollPosition_region_def Let_def scrollTo_top_def scrollTo_left_def)
  have four: "scrollLeft (setScrollPosition_region opts p (r\<lparr>scrollLeft := b\<rparr>))
          = scrollLeft (setScrollPosition_region opts p r)"
    if "horizontal opts \<and> scrollWidth r \<noteq> clientWidth r"
    using that by (simp add: setScrollPosition_region_def Let_def scrollTo_top_def scrollTo_left_def)
  from one two three four show ?thesis by blast
qed

theorem mirroring_idempotent_witness:
  "vertical defaults \<and> scrollHeight region_B \<noteq> clientHeight region_B
   \<and> scrollTop (setScrollPosition_region defaults \<lparr>x = Fin 0.2, y = Fin 0.5\<rparr> (region_B\<lparr>scrollTop := 7\<rparr>))
       = scrollTop (setScrollPosition_region defaults \<lparr>x = Fin 0.2, y = Fin 0.5\<rparr> region_B)
   \<and> horizontal defaults \<and> scrollWidth region_B \<noteq> clientWidth region_B
   \<and> scrollLeft (setScrollPosition_region defaults \<lparr>x = Fin 0.2, y = Fin 0.5\<rparr> (region_B\<lparr>scrollLeft := 7\<rparr>))
       = scrollLeft (setScrollPosition_region defaults \<lparr>x = Fin 0.2, y = Fin 0.5\<rparr> region_B)
   \<and> setScrollPosition \<lparr>x = Fin 0.2, y = Fin 0.5\<rparr> 2 (setScrollPosition \<lparr>x = Fin 0.2, y = Fin 0.5\<rparr> 2 demo)
       = setScrollPosition \<lparr>x = Fin 0.2, y = Fin 0.5\<rparr> 2 demo"
  using mirroring_idempotent [of "\<lparr>x = Fin 0.2, y = Fin 0.5\<rparr>" 2 demo None defaults region_B 7 7]
  by (simp add: defaults_def region_B_def)

section \<open>Writing a progress and reading it back\<close>

lemma demo_fields [simp]:
  "elements demo = [1, 2]" "options demo = \<lparr>vertical = True, horizontal = True\<rparr>"
  "paused demo = False" "nodes demo = demo_page" "listeners demo = {ElemRef 1, ElemRef 2}"
  "console demo = []" "ticks demo = []" "frames demo = []"
  by (simp_all add: demo_eq)



lemma snap_whole [simp]:
  "snap (real_of_int k) = real_of_int k" "snap 0 = 0" "snap 1 = 1" "snap (numeral n) = numeral n"
  by (simp_all add: snap_def)


lemma scrollTop_written:
  "vertical opts \<Longrightarrow> scrollHeight r \<noteq> clientHeight r \<Longrightarrow>
   scrollTop (setScrollPosition_region opts p r) =
     scrollTop (scrollTo_top (js_mul (real_of_int (scrollHeight r - clientHeight r)) (y p)) r)"
  by (simp add: setScrollPosition_region_def Let_def)

lemma scrollLeft_written:
  "horizontal opts \<Longrightarrow> scrollWidth r \<noteq> clientWidth r \<Longrightarrow>
   scrollLeft (setScrollPosition_region opts p r) =
     scrollLeft (scrollTo_left (js_mul (real_of_int (scrollWidth r - clientWidth r)) (x p)) r)"
proof -
  assume h: "horizontal opts" "scrollWidth r \<noteq> clientWidth r"
  have "scrollLeft (scrollTo_left v (scrollTo_top w r)) = scrollLeft (scrollTo_left v r)" for v w
    by (simp add: scrollTo_left_def scrollTo_top_def)
  with h show ?thesis
    by (simp add: setScrollPosition_region_def Let_def)
qed








lemma set_progress_valid:
  assumes "elements st = e0 # es"
    and "validateProgress (merge_progress (getScrollProgress (nodes st e0)) v) = (True, [])"
  shows "set_progress v st =
     Inr (mirrorScrollPositions (merge_progress (getScrollProgress (nodes st e0)) v) None st)"
  using assms by (simp add: set_progress_def get_progress_def Let_def)




lemma demo_page_R [simp]: "demo_page 3 = region_R"
  by (simp add: demo_page_def)

lemma demo_rtl_fields [simp]:
  "elements demo_rtl = [1, 3]" "options demo_rtl = \<lparr>vertical = True, horizontal = True\<rparr>"
  "nodes demo_rtl = demo_page" "console demo_rtl = []"
proof -
  have i: "init [ElemRef 1, ElemRef 3] all_options demo_page =
     \<lparr>elements = [1, 3], options = \<lparr>vertical = True, horizontal = True\<rparr>, paused = False,
      nodes = demo_page, listeners = {}, console = [], ticks = [], frames = []\<rparr>"
    by (simp add: init_def all_options_def defaults_def getScrollContainer_def
        region_A_def region_R_def)
  have eq: "demo_rtl =
     \<lparr>elements = [1, 3], options = \<lparr>vertical = True, horizontal = True\<rparr>, paused = False,
      nodes = demo_page, listeners = {ElemRef 1, ElemRef 3}, console = [], ticks = [], frames = []\<rparr>"
    unfolding demo_rtl_def Constructor_def i
    by (simp add: validateElements_def overflow_warnings_def hasOverflow_def hasCSSOverflow_def
        addHandler_def removeHandler_def getEventTarget_def documentElement_def
        region_A_def region_R_def Let_def insert_commute)
  show "elements demo_rtl = [1, 3]" "options demo_rtl = \<lparr>vertical = True, horizontal = True\<rparr>"
    "nodes demo_rtl = demo_page" "console demo_rtl = []"
    by (simp_all add: eq)
qed



section \<open>Writing one axis only\<close>








section \<open>Pause and resume\<close>

lemma tick_idle: "ticks st = [] \<Longrightarrow> tick st = st"
  by (simp add: tick_def)

lemma handleScroll_running:
  "\<not> paused st \<Longrightarrow> truthy t \<Longrightarrow>
   handleScroll t st = st\<lparr>ticks := ticks st @ [getScrollContainer (nodes st) t]\<rparr>"
  by (simp add: handleScroll_def)

lemma region_flags [simp]:
  "matchesBodyDescendant region_A" "matchesBodyDescendant region_B"
  "\<not> matchesBodyDescendant region_root"
  "isHTMLElement region_A" "isHTMLElement region_B" "isHTMLElement region_root"
  by (simp_all add: region_A_def region_B_def region_root_def)

text \<open>
  C8. While the paused flag is set by \<open>pause\<close>, a native scroll event at any event target
  is ignored entirely: the state after the event is the state before it, so nothing is
  read, nothing waits for the next tick and no region moves, also once that tick has
  passed. After \<open>resume\<close> a scroll event at a target that carries the handler mirrors
  again: at the next tick every other registered region holds what \<open>setScrollPosition\<close>
  writes for the progress of the scrolled region.
\<close>

theorem pause_then_resume:
  "scroll_event t (pause st) = pause st
   \<and> (ticks st = [] \<longrightarrow> tick (scroll_event t (pause st)) = pause st)
   \<and> (t \<in> listeners st \<and> truthy t \<and> ticks st = [] \<and> r \<in> set (elements st)
        \<and> r \<noteq> getScrollContainer (nodes st) t \<longrightarrow>
      nodes (tick (scroll_event t (resume (pause st)))) r =
        setScrollPosition_region (options st)
          (getScrollProgress (nodes st (getScrollContainer (nodes st) t))) (nodes st r))"
proof -
  have a: "scroll_event t (pause st) = pause st"
    by (simp add: scroll_event_def handleScroll_def pause_def)
  have b: "tick (scroll_event t (pause st)) = pause st" if "ticks st = []"
    unfolding a using that by (intro tick_idle) (simp add: pause_def)
  have c: "nodes (tick (scroll_event t (resume (pause st)))) r =
        setScrollPosition_region (options st)
          (getScrollProgress (nodes st (getScrollContainer (nodes st) t))) (nodes st r)"
    if "t \<in> listeners st \<and> truthy t \<and> ticks st = [] \<and> r \<in> set (elements st)
        \<and> r \<noteq> getScrollContainer (nodes st) t"
  proof -
    let ?src = "getScrollContainer (nodes st) t"
    have "scroll_event t (resume (pause st)) = st\<lparr>paused := False, ticks := [?src]\<rparr>"
      using that by (simp add: scroll_event_def handleScroll_def pause_def resume_def)
    then have "tick (scroll_event t (resume (pause st))) =
        handleScroll_continue ?src (st\<lparr>paused := False, ticks := []\<rparr>)"
      by (simp add: tick_def)
    then show ?thesis
      using that by (simp add: handleScroll_continue_def mirrorScrollPositions_nodes)
  qed
  from a b c show ?thesis by blast
qed

theorem pause_then_resume_witness:
  "ElemRef 1 \<in> listeners (demo\<lparr>nodes := (nodes demo)(1 := scrollTo_top (Fin 800) (nodes demo 1))\<rparr>)
   \<and> truthy (ElemRef 1)
   \<and> ticks (demo\<lparr>nodes := (nodes demo)(1 := scrollTo_top (Fin 800) (nodes demo 1))\<rparr>) = []
   \<and> 2 \<in> set (elements (demo\<lparr>nodes := (nodes demo)(1 := scrollTo_top (Fin 800) (nodes demo 1))\<rparr>))
   \<and> 2 \<noteq> getScrollContainer
        (nodes (demo\<lparr>nodes := (nodes demo)(1 := scrollTo_top (Fin 800) (nodes demo 1))\<rparr>)) (ElemRef 1)
   \<and> offsets 2 (tick (scroll_event (ElemRef 1)
        (pause (demo\<lparr>nodes := (nodes demo)(1 := scrollTo_top (Fin 800) (nodes demo 1))\<rparr>)))) = (250, 80)
   \<and> offsets 2 (tick (scroll_event (ElemRef 1)
        (resume (pause (demo\<lparr>nodes := (nodes demo)(1 := scrollTo_top (Fin 800) (nodes demo 1))\<rparr>)))))
       = (400, 20)"
proof -
  let ?st = "demo\<lparr>nodes := (nodes demo)(1 := scrollTo_top (Fin 800) (nodes demo 1))\<rparr>"
  have h: "ElemRef 1 \<in> listeners ?st" "truthy (ElemRef 1)" "ticks ?st = []" "2 \<in> set (elements ?st)"
    by simp_all
  have src: "getScrollContainer (nodes ?st) (ElemRef 1) = 1"
    by (simp add: getScrollContainer_def scrollTo_top_def)
  have p: "getScrollProgress (nodes ?st 1) = \<lparr>x = Fin 0.2, y = Fin 0.8\<rparr>"
    by (simp add: getScrollProgress_def scrollTo_top_def region_A_def)
  have w: "setScrollPosition_region (options ?st) \<lparr>x = Fin 0.2, y = Fin 0.8\<rparr> (nodes ?st 2)
      = region_B\<lparr>scrollTop := 400, scrollLeft := 20\<rparr>"
    by (simp add: setScrollPosition_region_def scrollTo_top_def scrollTo_left_def region_B_def)
  have "tick (scroll_event (ElemRef 1) (pause ?st)) = pause ?st"
    using pause_then_resume [of "ElemRef 1" ?st 2] h by blast
  moreover have "nodes (tick (scroll_event (ElemRef 1) (resume (pause ?st)))) 2
      = region_B\<lparr>scrollTop := 400, scrollLeft := 20\<rparr>"
    using pause_then_resume [of "ElemRef 1" ?st 2] h unfolding src p w by simp
  ultimately show ?thesis
    using h src by (simp add: offsets_def pause_def region_B_def)
qed

section \<open>The progress accessors on an instance without regions\<close>

text \<open>
  C5, at the failing input. An instance constructed from an empty collection has an empty
  element list; reading its progress throws a TypeError, and so does every write to its
  progress, since the setter reads the progress first.
\<close>

theorem progress_of_empty_instance:
  "elements (Constructor [] opts pg) = []
   \<and> get_progress (Constructor [] opts pg) = Inl TypeError
   \<and> set_progress v (Constructor [] opts pg) = Inl TypeError"
  by (simp add: Constructor_elements get_progress_def set_progress_def)

section \<open>Validation of a progress write\<close>

lemma set_progress_rejected:
  assumes "elements st = e0 # es"
    and "\<not> fst (validateProgress (merge_progress (getScrollProgress (nodes st e0)) v))"
  shows "set_progress v st = Inr (st\<lparr>console := console st
     @ snd (validateProgress (merge_progress (getScrollProgress (nodes st e0)) v))\<rparr>)"
  using assms by (simp add: set_progress_def get_progress_def Let_def split_beta)

lemma validateProgress_accepts:
  "fst (validateProgress p) \<longleftrightarrow>
     (x p = NaN \<or> (\<exists>a. x p = Fin a \<and> 0 \<le> a \<and> a \<le> 1))
     \<and> (y p = NaN \<or> (\<exists>b. y p = Fin b \<and> 0 \<le> b \<and> b \<le> 1))"
  by (cases "x p"; cases "y p") (auto simp add: validateProgress_def)

text \<open>
  C1, at the failing input. \<open>validateProgress\<close> accepts NaN on both axes without a
  diagnostic, so the write of NaN on the example page is not rejected: it is mirrored, and
  region B goes from the offsets (250, 80) to (0, 0) while the console stays empty. The
  write of 2 is rejected as the claim says: B keeps its offsets and one diagnostic per
  axis is emitted.
\<close>

theorem progress_write_NaN:
  "validateProgress \<lparr>x = NaN, y = NaN\<rparr> = (True, [])
   \<and> offsets 2 demo = (250, 80)
   \<and> offsets_of 2 (set_progress (Number NaN) demo) = Inr (0, 0)
   \<and> console_of (set_progress (Number NaN) demo) = Inr []
   \<and> offsets_of 2 (set_progress (Number (Fin 2)) demo) = Inr (250, 80)
   \<and> console_of (set_progress (Number (Fin 2)) demo)
       = Inr [ConsoleError ''progress.x must be a number between 0-1'',
              ConsoleError ''progress.y must be a number between 0-1'']"
proof -
  have e: "elements demo = 1 # [2]" by simp
  have v: "validateProgress \<lparr>x = NaN, y = NaN\<rparr> = (True, [])"
    by (simp add: validateProgress_def)
  have "merge_progress (getScrollProgress (nodes demo 1)) (Number NaN) = \<lparr>x = NaN, y = NaN\<rparr>"
    by (simp add: merge_progress_def)
  then have nan: "set_progress (Number NaN) demo
      = Inr (mirrorScrollPositions \<lparr>x = NaN, y = NaN\<rparr> None demo)"
    using set_progress_valid [OF e, of "Number NaN"] v by simp
  have m2: "merge_progress (getScrollProgress (nodes demo 1)) (Number (Fin 2)) = \<lparr>x = Fin 2, y = Fin 2\<rparr>"
    by (simp add: merge_progress_def)
  have v2: "validateProgress \<lparr>x = Fin 2, y = Fin 2\<rparr>
      = (False, [ConsoleError ''progress.x must be a number between 0-1'',
              ConsoleError ''progress.y must be a number between 0-1''])"
    by (simp add: validateProgress_def)
  have two: "set_progress (Number (Fin 2)) demo
      = Inr (demo\<lparr>console := [ConsoleError ''progress.x must be a number between 0-1'',
              ConsoleError ''progress.y must be a number between 0-1'']\<rparr>)"
    using set_progress_rejected [OF e, of "Number (Fin 2)"] unfolding m2 v2 by simp
  have b: "offsets 2 (mirrorScrollPositions \<lparr>x = NaN, y = NaN\<rparr> None demo) = (0, 0)"
    by (simp add: offsets_def mirrorScrollPositions_nodes region_B_def
        scrollTop_written scrollLeft_written scrollTo_top_def scrollTo_left_def)
  show ?thesis
    unfolding nan two using v b
    by (simp add: offsets_of_def console_of_def) (simp add: offsets_def region_B_def)
qed

section \<open>Destroy\<close>

lemma fold_removeHandler_listeners:
  "listeners (fold removeHandler es st) = listeners st - getEventTarget (nodes st) ` set es"
  by (induction es arbitrary: st) (auto simp add: removeHandler_def)

lemma fold_addHandler_listeners:
  "listeners (fold addHandler es st) = listeners st \<union> getEventTarget (nodes st) ` set es"
  by (induction es arbitrary: st) (auto simp add: addHandler_def removeHandler_def Let_def)

lemma setScrollPosition_region_flags [simp]:
  "matchesBodyDescendant (setScrollPosition_region opts p r) = matchesBodyDescendant r"
  "isHTMLElement (setScrollPosition_region opts p r) = isHTMLElement r"
  by (simp_all add: setScrollPosition_region_def Let_def scrollTo_top_def scrollTo_left_def)

lemma mirror_step_target [simp]:
  "getEventTarget (nodes (mirror_step p ig e st)) n = getEventTarget (nodes st) n"
  by (simp add: getEventTarget_def mirror_step_nodes)

lemma mirror_step_listeners:
  "listeners (mirror_step p ig e st) =
     (if ig = Some e then listeners st else listeners st - {getEventTarget (nodes st) e})"
  by (simp add: mirror_step_def Let_def removeHandler_def)

lemma mirror_step_frames:
  "frames (mirror_step p ig e st) = (if ig = Some e then frames st else frames st @ [e])"
  by (simp add: mirror_step_def Let_def)

lemma fold_mirror_step_target [simp]:
  "getEventTarget (nodes (fold (mirror_step p ig) es st)) n = getEventTarget (nodes st) n"
  by (induction es arbitrary: st) simp_all

lemma fold_mirror_step_listeners:
  "listeners (fold (mirror_step p ig) es st) =
     listeners st - getEventTarget (nodes st) ` {e \<in> set es. ig \<noteq> Some e}"
  by (induction es arbitrary: st) (auto simp add: mirror_step_listeners)

lemma fold_mirror_step_frames:
  "frames (fold (mirror_step p ig) es st) = frames st @ filter (\<lambda>e. ig \<noteq> Some e) es"
  by (induction es arbitrary: st) (simp_all add: mirror_step_frames)

lemma mirrorScrollPositions_listeners:
  "listeners (mirrorScrollPositions p ig st) =
     listeners st - getEventTarget (nodes st) ` {e \<in> set (elements st). ig \<noteq> Some e}"
  by (simp add: mirrorScrollPositions_def fold_mirror_step_listeners)

lemma mirrorScrollPositions_frames:
  "frames (mirrorScrollPositions p ig st) = frames st @ filter (\<lambda>e. ig \<noteq> Some e) (elements st)"
  by (simp add: mirrorScrollPositions_def fold_mirror_step_frames)

lemma destroy_listeners:
  "listeners (destroy st) = listeners st - getEventTarget (nodes st) ` set (elements st)"
  by (simp add: destroy_def fold_removeHandler_listeners)

lemma destroy_silences:
  assumes "listeners st \<subseteq> getEventTarget (nodes st) ` set (elements st)"
  shows "listeners (destroy st) = {}" and "scroll_event t (destroy st) = destroy st"
proof -
  show "listeners (destroy st) = {}"
    using assms by (auto simp add: destroy_listeners)
  then show "scroll_event t (destroy st) = destroy st"
    by (simp add: scroll_event_def)
qed

lemma animation_frame_listeners:
  "listeners (animation_frame st) = listeners st \<union> getEventTarget (nodes st) ` set (frames st)"
  by (simp add: animation_frame_def fold_addHandler_listeners)

lemma tick_one: "ticks st = [s] \<Longrightarrow> tick st = handleScroll_continue s (st\<lparr>ticks := []\<rparr>)"
  by (simp add: tick_def)

lemma run_mirrored_fields:
  "elements run_mirrored = [1, 2]"
  "options run_mirrored = \<lparr>vertical = True, horizontal = True\<rparr>"
  "paused run_mirrored = False"
  "listeners run_mirrored = {ElemRef 1}"
  "frames run_mirrored = [2]"
  "ticks run_mirrored = []"
  "nodes run_mirrored (Suc 0) = region_A\<lparr>scrollTop := 800\<rparr>"
  "nodes run_mirrored 2 = region_B\<lparr>scrollTop := 400, scrollLeft := 20\<rparr>"
proof -
  let ?st = "demo\<lparr>nodes := demo_page(1 := region_A\<lparr>scrollTop := 800\<rparr>)\<rparr>"
  have u: "user_scroll 1 800 20 demo = ?st\<lparr>ticks := [1]\<rparr>"
    apply (simp add: user_scroll_def documentElement_def scroll_event_def handleScroll_def
        getScrollContainer_def scrollTo_top_def scrollTo_left_def)
    apply (simp add: region_A_def)
    done
  have p: "getScrollProgress (region_A\<lparr>scrollTop := 800\<rparr>) = \<lparr>x = Fin 0.2, y = Fin 0.8\<rparr>"
    by (simp add: getScrollProgress_def region_A_def)
  have r: "run_mirrored = mirrorScrollPositions \<lparr>x = Fin 0.2, y = Fin 0.8\<rparr> (Some 1)
      (?st\<lparr>ticks := []\<rparr>)"
    unfolding run_mirrored_def u by (simp add: tick_def handleScroll_continue_def p)
  show "elements run_mirrored = [1, 2]"
    "options run_mirrored = \<lparr>vertical = True, horizontal = True\<rparr>"
    "paused run_mirrored = False" "ticks run_mirrored = []"
    unfolding r by simp_all
  show "listeners run_mirrored = {ElemRef 1}"
    unfolding r by (auto simp add: mirrorScrollPositions_listeners getEventTarget_def)
  show "frames run_mirrored = [2]"
    unfolding r by (simp add: mirrorScrollPositions_frames)
  show "nodes run_mirrored (Suc 0) = region_A\<lparr>scrollTop := 800\<rparr>"
    unfolding r by (simp add: mirrorScrollPositions_nodes)
  show "nodes run_mirrored 2 = region_B\<lparr>scrollTop := 400, scrollLeft := 20\<rparr>"
    unfolding r
    by (simp add: mirrorScrollPositions_nodes setScrollPosition_region_def
        scrollTo_top_def scrollTo_left_def region_B_def)
qed

lemma destroy_fields [simp]:
  "elements (destroy st) = elements st" "options (destroy st) = options st"
  "paused (destroy st) = paused st" "nodes (destroy st) = nodes st"
  "console (destroy st) = console st" "ticks (destroy st) = ticks st"
  "frames (destroy st) = frames st"
  by (simp_all add: destroy_def)

lemma animation_frame_fields [simp]:
  "elements (animation_frame st) = elements st" "options (animation_frame st) = options st"
  "paused (animation_frame st) = paused st" "nodes (animation_frame st) = nodes st"
  "console (animation_frame st) = console st" "ticks (animation_frame st) = ticks st"
  "frames (animation_frame st) = []"
  by (simp_all add: animation_frame_def)

lemma run_frame_fields:
  "elements run_frame = [1, 2]"
  "options run_frame = \<lparr>vertical = True, horizontal = True\<rparr>"
  "paused run_frame = False"
  "listeners run_destroyed = {}"
  "listeners run_frame = {ElemRef 2}"
  "ticks run_frame = []"
  "nodes run_frame (Suc 0) = region_A\<lparr>scrollTop := 800\<rparr>"
  "nodes run_frame 2 = region_B\<lparr>scrollTop := 400, scrollLeft := 20\<rparr>"
proof -
  show d: "listeners run_destroyed = {}"
    unfolding run_destroyed_def
    by (simp add: destroy_listeners run_mirrored_fields getEventTarget_def)
  show "listeners run_frame = {ElemRef 2}"
    unfolding run_frame_def animation_frame_listeners d
    by (simp add: run_destroyed_def run_mirrored_fields getEventTarget_def)
  show "elements run_frame = [1, 2]"
    "options run_frame = \<lparr>vertical = True, horizontal = True\<rparr>"
    "paused run_frame = False" "ticks run_frame = []"
    "nodes run_frame (Suc 0) = region_A\<lparr>scrollTop := 800\<rparr>"
    "nodes run_frame 2 = region_B\<lparr>scrollTop := 400, scrollLeft := 20\<rparr>"
    by (simp_all add: run_frame_def run_destroyed_def run_mirrored_fields)
qed

lemma run_late_A: "nodes run_late (Suc 0) = region_A\<lparr>scrollTop := 200, scrollLeft := 50\<rparr>"
proof -
  let ?B = "region_B\<lparr>scrollTop := 100, scrollLeft := 50\<rparr>"
  let ?st = "run_frame\<lparr>nodes := (nodes run_frame)(2 := ?B)\<rparr>"
  have b: "scrollTo_left (Fin 50) (scrollTo_top (Fin 100) (nodes run_frame 2)) = ?B"
    by (simp add: run_frame_fields scrollTo_top_def scrollTo_left_def region_B_def)
  have u: "user_scroll 2 100 50 run_frame = ?st\<lparr>ticks := [2]\<rparr>"
    unfolding user_scroll_def b
    by (simp add: documentElement_def scroll_event_def handleScroll_def run_frame_fields
        getScrollContainer_def)
  have p: "getScrollProgress ?B = \<lparr>x = Fin 0.5, y = Fin 0.2\<rparr>"
    by (simp add: getScrollProgress_def region_B_def)
  have r: "run_late = mirrorScrollPositions \<lparr>x = Fin 0.5, y = Fin 0.2\<rparr> (Some 2)
      (?st\<lparr>ticks := []\<rparr>)"
    unfolding run_late_def u by (simp add: tick_def handleScroll_continue_def p)
  show ?thesis
    unfolding r
    by (simp add: mirrorScrollPositions_nodes run_frame_fields setScrollPosition_region_def
        scrollTo_top_def scrollTo_left_def region_A_def)
qed

text \<open>
  C9, at the failing input. In the run on the example page, \<open>destroy\<close> leaves no
  listener; the animation frame that was pending from the mirror pass then registers the
  handler on B again; and the later scroll of B to (100, 50) is mirrored to A, which goes
  from the offsets (800, 20) to (200, 50).
\<close>

theorem destroy_then_frame:
  "listeners run_destroyed = {}
   \<and> listeners run_frame = {ElemRef 2}
   \<and> offsets 1 run_frame = (800, 20)
   \<and> offsets 1 run_late = (200, 50)"
  by (simp add: offsets_def run_frame_fields run_late_A region_A_def)

end
